theory Spec2Isabelle
  imports Main "HOL-Library.Word" "HOL-Library.Monad_Syntax"
begin

section \<open>The standard library as the program uses it\<close>

text \<open>
  The program reads the clock with \<^verbatim>\<open>time.Now()\<close>, moves an instant with
  \<^verbatim>\<open>Time.Add\<close> and compares two instants with \<^verbatim>\<open>Time.After\<close>. An instant is
  modelled as the number of nanoseconds since the zero value of \<^verbatim>\<open>time.Time\<close>, an
  unbounded integer: the range of \<^verbatim>\<open>time.Time\<close> exceeds every clock reading
  plus or minus every \<^verbatim>\<open>time.Duration\<close>. A \<^verbatim>\<open>time.Duration\<close> is Go's
  \<^verbatim>\<open>int64\<close> count of nanoseconds, read as a signed number. Every reading of
  \<^verbatim>\<open>time.Now()\<close> is an input of the function that takes it.
\<close>

type_synonym Time = int

type_synonym Duration = "64 word"

definition Time_Add :: "Time \<Rightarrow> Duration \<Rightarrow> Time" where
  "Time_Add t d = t + sint d"

definition Time_After :: "Time \<Rightarrow> Time \<Rightarrow> bool" where
  "Time_After t u = (u < t)"

section \<open>timeWatchdogService\<close>

text \<open>
  \<^verbatim>\<open>type timeWatchdogService struct { name string; duration time.Duration; expireAt time.Time }\<close>
\<close>

record timeWatchdogService =
  name :: string
  duration :: Duration
  expireAt :: Time

text \<open>
  The methods have a pointer receiver, so each of them could write to the struct. A
  method is modelled as a function from the struct before the call to its result and
  the struct after the call.
\<close>

text \<open>\<^verbatim>\<open>func (s *timeWatchdogService) Name() string { return s.name }\<close>\<close>

definition timeWatchdogService_Name :: "timeWatchdogService \<Rightarrow> string \<times> timeWatchdogService" where
  "timeWatchdogService_Name s = (name s, s)"

text \<open>\<^verbatim>\<open>func (s *timeWatchdogService) Whack() { s.expireAt = time.Now().Add(s.duration) }\<close>\<close>

definition timeWatchdogService_Whack :: "timeWatchdogService \<Rightarrow> Time \<Rightarrow> timeWatchdogService" where
  "timeWatchdogService_Whack s now = s\<lparr>expireAt := Time_Add now (duration s)\<rparr>"

text \<open>\<^verbatim>\<open>func (s *timeWatchdogService) Check() bool { return time.Now().After(s.expireAt) }\<close>\<close>

definition timeWatchdogService_Check :: "timeWatchdogService \<Rightarrow> Time \<Rightarrow> bool \<times> timeWatchdogService" where
  "timeWatchdogService_Check s now = (Time_After now (expireAt s), s)"

text \<open>
  The constructor builds the struct with \<^verbatim>\<open>expireAt\<close> at its zero value, calls
  \<^verbatim>\<open>s.Whack()\<close> and returns the pointer. It has no error result and no branch.
\<close>

definition TimeWatchdogService :: "string \<Rightarrow> Duration \<Rightarrow> Time \<Rightarrow> timeWatchdogService" where
  "TimeWatchdogService n d now =
     (let s = \<lparr>name = n, duration = d, expireAt = 0\<rparr>
      in timeWatchdogService_Whack s now)"

section \<open>mapWatchdogSystem\<close>

text \<open>
  \<^verbatim>\<open>type mapWatchdogSystem struct { terminated bool; mutex *sync.Mutex; services map[string]WatchdogService }\<close>

  The interface \<^verbatim>\<open>WatchdogService\<close> has one implementation in the program,
  \<^verbatim>\<open>*timeWatchdogService\<close>; the map is modelled as a partial function from the
  key to the struct its pointer refers to. The mutex is modelled by whether it is
  held. The identifiers \<^verbatim>\<open>Service\<close>, \<^verbatim>\<open>Watchdog\<close> and \<^verbatim>\<open>timeWatchdog\<close>, which
  the program declares nowhere, are read as the declared \<^verbatim>\<open>WatchdogService\<close>,
  \<^verbatim>\<open>WatchdogSystem\<close> and \<^verbatim>\<open>mapWatchdogSystem\<close>.
\<close>

record mapWatchdogSystem =
  terminated :: bool
  mutex :: bool
  services :: "string \<rightharpoonup> timeWatchdogService"

text \<open>
  \<^verbatim>\<open>sync.Mutex\<close>: \<^verbatim>\<open>Lock\<close> on a mutex that is held does not return in a
  run of one goroutine, and \<^verbatim>\<open>Unlock\<close> on a mutex that is not held is a fatal
  error. Both are the result \<open>None\<close>.
\<close>

definition Lock :: "mapWatchdogSystem \<Rightarrow> mapWatchdogSystem option" where
  "Lock w = (if mutex w then None else Some (w\<lparr>mutex := True\<rparr>))"

definition Unlock :: "mapWatchdogSystem \<Rightarrow> mapWatchdogSystem option" where
  "Unlock w = (if mutex w then Some (w\<lparr>mutex := False\<rparr>) else None)"

definition MapWatchdogSystem :: mapWatchdogSystem where
  "MapWatchdogSystem = \<lparr>terminated = False, mutex = False, services = Map.empty\<rparr>"

text \<open>
  \<^verbatim>\<open>Add\<close> and \<^verbatim>\<open>Remove\<close> write \<^verbatim>\<open>w.timeouts\<close>. The struct declares no
  field of that name: its only map is \<^verbatim>\<open>services\<close>, the one that \<^verbatim>\<open>Check\<close>
  ranges over. The undeclared field is taken as a parameter of the two functions: a
  map of the type of \<^verbatim>\<open>services\<close>, passed in beside the struct and returned
  beside it. Both functions are modelled as they are written, so neither of them
  reads or writes \<^verbatim>\<open>services\<close>. The deferred \<^verbatim>\<open>Unlock\<close> runs after the write.
\<close>

definition mapWatchdogSystem_Add :: "mapWatchdogSystem \<Rightarrow> (string \<rightharpoonup> timeWatchdogService) \<Rightarrow>
    timeWatchdogService \<Rightarrow> (mapWatchdogSystem \<times> (string \<rightharpoonup> timeWatchdogService)) option" where
  "mapWatchdogSystem_Add w timeouts s = do {
     w1 \<leftarrow> Lock w;
     (case timeWatchdogService_Name s of
        (n, s1) \<Rightarrow> do {
          w2 \<leftarrow> Unlock w1;
          Some (w2, timeouts(n \<mapsto> s1))
        })
   }"

text \<open>
  \<^verbatim>\<open>delete(w.timeouts, s.Name())\<close>: \<^verbatim>\<open>delete\<close> on a key the map does not hold
  does nothing.
\<close>

definition mapWatchdogSystem_Remove :: "mapWatchdogSystem \<Rightarrow> (string \<rightharpoonup> timeWatchdogService) \<Rightarrow>
    timeWatchdogService \<Rightarrow> (mapWatchdogSystem \<times> (string \<rightharpoonup> timeWatchdogService)) option" where
  "mapWatchdogSystem_Remove w timeouts s = do {
     w1 \<leftarrow> Lock w;
     (case timeWatchdogService_Name s of
        (n, s1) \<Rightarrow> do {
          w2 \<leftarrow> Unlock w1;
          Some (w2, timeouts(n := None))
        })
   }"

text \<open>
  The loop \<^verbatim>\<open>for name, service := range w.services\<close> visits every entry of the
  map once, in an order the runtime chooses anew at each loop. A run of the loop is
  given by the list of its visits: the key visited and the clock reading that
  \<^verbatim>\<open>service.Check()\<close> takes during that visit. \<open>range_visits m vs\<close> says that
  \<open>vs\<close> is such a run over the map \<open>m\<close>. The loop over a list that names a key
  outside the map passes over that key.

  The body \<^verbatim>\<open>if !service.Check() { if errors != "" { errors = errors + ", " }; errors += name }\<close>
  is the second equation of \<open>Check_range\<close>; the struct after
  \<^verbatim>\<open>service.Check()\<close> is what the map's pointer refers to from then on.
\<close>

type_synonym visit = "string \<times> Time"

definition range_visits :: "(string \<rightharpoonup> timeWatchdogService) \<Rightarrow> visit list \<Rightarrow> bool" where
  "range_visits m vs = (distinct (map fst vs) \<and> set (map fst vs) = dom m)"

fun Check_range :: "visit list \<Rightarrow> (string \<rightharpoonup> timeWatchdogService) \<Rightarrow> string \<Rightarrow>
    string \<times> (string \<rightharpoonup> timeWatchdogService)" where
  "Check_range [] m errors = (errors, m)"
| "Check_range ((k, now) # vs) m errors =
     (case m k of
        None \<Rightarrow> Check_range vs m errors
      | Some service \<Rightarrow>
          (case timeWatchdogService_Check service now of
             (b, service1) \<Rightarrow>
               if \<not> b
               then Check_range vs (m(k \<mapsto> service1))
                      ((if errors \<noteq> [] then errors @ '', '' else errors) @ k)
               else Check_range vs (m(k \<mapsto> service1)) errors))"

text \<open>
  An \<^verbatim>\<open>error\<close> is modelled by its message, \<^verbatim>\<open>nil\<close> by \<open>None\<close>.
  \<^verbatim>\<open>fmt.Errorf("Watchdog timed out on the following services: %s", errors)\<close>
  appends \<^verbatim>\<open>errors\<close> to the constant text. The deferred \<^verbatim>\<open>Unlock\<close> runs
  when the function returns.
\<close>

definition mapWatchdogSystem_Check :: "mapWatchdogSystem \<Rightarrow> visit list \<Rightarrow>
    (string option \<times> mapWatchdogSystem) option" where
  "mapWatchdogSystem_Check w vs = do {
     w1 \<leftarrow> Lock w;
     (case Check_range vs (services w1) [] of
        (errors, m) \<Rightarrow> do {
          w2 \<leftarrow> Unlock (w1\<lparr>services := m\<rparr>);
          Some (if errors \<noteq> []
                then Some (''Watchdog timed out on the following services: '' @ errors)
                else None, w2)
        })
   }"

text \<open>\<^verbatim>\<open>func (w *mapWatchdogSystem) Terminate() { w.terminated = true }\<close>\<close>

definition mapWatchdogSystem_Terminate :: "mapWatchdogSystem \<Rightarrow> mapWatchdogSystem" where
  "mapWatchdogSystem_Terminate w = w\<lparr>terminated := True\<rparr>"

text \<open>
  \<^verbatim>\<open>Watch\<close> runs until it returns, and it may never return. Each turn of its loop
  that reaches \<^verbatim>\<open>w.Check()\<close> takes one \<open>round\<close> from its environment: the run
  of the range loop of that call (\<open>visits\<close>), and what the other goroutines did
  to the system while \<^verbatim>\<open>time.Sleep(period)\<close> lasted (\<open>others\<close>: calls of
  \<^verbatim>\<open>Add\<close>, \<^verbatim>\<open>Remove\<close> and \<^verbatim>\<open>Terminate\<close>, and \<^verbatim>\<open>Whack\<close> through the
  pointers the map holds). The outcome of \<^verbatim>\<open>Watch\<close> on a list of rounds is
  \<^item> \<open>Returned err w log\<close>: it returned \<open>err\<close>, leaving the system \<open>w\<close>;
  \<^item> \<open>Running w log\<close>: after the last round's sleep it found \<^verbatim>\<open>w.terminated\<close>
    false and is about to call \<^verbatim>\<open>w.Check()\<close> on the system \<open>w\<close>;
  \<^item> \<open>Blocked\<close>: a call of \<^verbatim>\<open>w.Check()\<close> did not return.

  \<open>log\<close> lists what each call of \<^verbatim>\<open>w.Check()\<close> made so far returned, first
  call first. It is an observation of the run and no variable of the program.
\<close>

record round =
  visits :: "visit list"
  others :: "mapWatchdogSystem \<Rightarrow> mapWatchdogSystem"

datatype outcome =
    Returned "string option" mapWatchdogSystem "string option list"
  | Running mapWatchdogSystem "string option list"
  | Blocked

definition Sleep :: "Duration \<Rightarrow> round \<Rightarrow> mapWatchdogSystem \<Rightarrow> mapWatchdogSystem" where
  "Sleep period r w = others r w"

fun Watch_loop :: "mapWatchdogSystem \<Rightarrow> Duration \<Rightarrow> round list \<Rightarrow> string option list \<Rightarrow> outcome" where
  "Watch_loop w period [] log =
     (if terminated w then Returned None w log else Running w log)"
| "Watch_loop w period (r # rs) log =
     (if terminated w then Returned None w log
      else case mapWatchdogSystem_Check w (visits r) of
             None \<Rightarrow> Blocked
           | Some (err, w1) \<Rightarrow>
               if err \<noteq> None then Returned err w1 (log @ [err])
               else Watch_loop (Sleep period r w1) period rs (log @ [err]))"

definition mapWatchdogSystem_Watch :: "mapWatchdogSystem \<Rightarrow> Duration \<Rightarrow> round list \<Rightarrow> outcome" where
  "mapWatchdogSystem_Watch w period rs = Watch_loop w period rs []"

section \<open>What the range loop reports\<close>

text \<open>
  \<open>append_name\<close> is the update of \<^verbatim>\<open>errors\<close> in the body of the range loop.
  \<open>reported vs m\<close> lists, in the order of the visits \<open>vs\<close>, the keys whose
  visit takes the branch \<^verbatim>\<open>if !service.Check()\<close>. \<open>comma_separated\<close> writes a
  list of names with a comma and a space between neighbours.
\<close>

definition append_name :: "string \<Rightarrow> string \<Rightarrow> string" where
  "append_name errors n = (if errors \<noteq> [] then errors @ '', '' else errors) @ n"

definition reported :: "visit list \<Rightarrow> (string \<rightharpoonup> timeWatchdogService) \<Rightarrow> string list" where
  "reported vs m =
     map fst (filter (\<lambda>(k, now). case m k of
                                   None \<Rightarrow> False
                                 | Some service \<Rightarrow> \<not> fst (timeWatchdogService_Check service now)) vs)"

fun comma_separated :: "string list \<Rightarrow> string" where
  "comma_separated [] = []"
| "comma_separated [n] = n"
| "comma_separated (n # n' # ns) = n @ '', '' @ comma_separated (n' # ns)"

section \<open>Example systems\<close>

text \<open>
  The spec's scenario: a check \<open>db\<close> with a window of 50 ms, built at the instant
  0; \<open>db_system\<close> is a system whose map \<^verbatim>\<open>services\<close> holds it.
  \<open>ab_system\<close> holds two such checks, \<open>a\<close> and \<open>b\<close>. In \<open>whack_round\<close>
  the range loop reads the clock at 60 ms and the owner of \<open>db\<close> whacks it at 100 ms
  during the sleep; in \<open>late_round\<close> the range loop reads the clock at 110 ms; in
  \<open>stop_round\<close> the range loop reads the clock at 60 ms and another goroutine calls
  \<^verbatim>\<open>Terminate()\<close> during the sleep.
\<close>

definition db_service :: timeWatchdogService where
  "db_service = TimeWatchdogService ''db'' 50000000 0"

definition db_system :: mapWatchdogSystem where
  "db_system = \<lparr>terminated = False, mutex = False, services = [''db'' \<mapsto> db_service]\<rparr>"

definition db_whacked :: mapWatchdogSystem where
  "db_whacked = \<lparr>terminated = False, mutex = False,
     services = [''db'' \<mapsto> timeWatchdogService_Whack db_service 100000000]\<rparr>"

definition ab_system :: mapWatchdogSystem where
  "ab_system = \<lparr>terminated = False, mutex = False,
     services = [''a'' \<mapsto> TimeWatchdogService ''a'' 50000000 0,
                 ''b'' \<mapsto> TimeWatchdogService ''b'' 50000000 0]\<rparr>"

definition whack_round :: round where
  "whack_round = \<lparr>visits = [(''db'', 60000000)],
     others = (\<lambda>w. w\<lparr>services := (services w)(''db'' \<mapsto> timeWatchdogService_Whack db_service 100000000)\<rparr>)\<rparr>"

definition late_round :: round where
  "late_round = \<lparr>visits = [(''db'', 110000000)], others = (\<lambda>w. w)\<rparr>"

definition stop_round :: round where
  "stop_round = \<lparr>visits = [(''db'', 60000000)], others = mapWatchdogSystem_Terminate\<rparr>"

section \<open>Helper facts\<close>

lemma db_service_eq: "db_service = \<lparr>name = ''db'', duration = 50000000, expireAt = 50000000\<rparr>"
  by (simp add: db_service_def TimeWatchdogService_def timeWatchdogService_Whack_def Time_Add_def)

lemma Check_range_foldl:
  "Check_range vs m errors = (foldl append_name errors (reported vs m), m)"
proof (induction vs arbitrary: errors)
  case Nil
  show ?case by (simp add: reported_def)
next
  case (Cons v vs)
  obtain k now where v: "v = (k, now)" by (cases v)
  show ?case
  proof (cases "m k")
    case None
    with v Cons show ?thesis by (simp add: reported_def)
  next
    case (Some service)
    then have "m(k \<mapsto> service) = m" by (simp add: map_upd_triv)
    with v Some Cons show ?thesis
      by (simp add: timeWatchdogService_Check_def append_name_def reported_def)
  qed
qed

lemma foldl_append_name_nonempty:
  "errors \<noteq> [] \<Longrightarrow> foldl append_name errors ns = comma_separated (errors # ns)"
proof (induction ns arbitrary: errors)
  case Nil
  show ?case by simp
next
  case (Cons n ns)
  have ne: "append_name errors n \<noteq> []" using Cons.prems by (simp add: append_name_def)
  have "foldl append_name errors (n # ns) = foldl append_name (append_name errors n) ns" by simp
  also have "\<dots> = comma_separated (append_name errors n # ns)" using Cons.IH [OF ne] .
  also have "\<dots> = comma_separated (errors # n # ns)"
    using Cons.prems by (cases ns) (simp_all add: append_name_def)
  finally show ?case .
qed

lemma foldl_append_name_empty:
  "foldl append_name [] ns = comma_separated (dropWhile (\<lambda>n. n = []) ns)"
proof (induction ns)
  case Nil
  show ?case by simp
next
  case (Cons n ns)
  show ?case
  proof (cases "n = []")
    case True
    with Cons show ?thesis by (simp add: append_name_def)
  next
    case False
    then have "foldl append_name [] (n # ns) = foldl append_name n ns" by (simp add: append_name_def)
    also have "\<dots> = comma_separated (n # ns)" using False by (rule foldl_append_name_nonempty)
    finally show ?thesis using False by simp
  qed
qed

lemma Check_eq:
  "mapWatchdogSystem_Check w vs =
     (if mutex w then None
      else Some (if fst (Check_range vs (services w) []) \<noteq> []
                 then Some (''Watchdog timed out on the following services: '' @ fst (Check_range vs (services w) []))
                 else None, w))"
proof (cases "mutex w")
  case True
  then show ?thesis by (simp add: mapWatchdogSystem_Check_def Lock_def)
next
  case False
  then have "w\<lparr>mutex := True, services := services w, mutex := False\<rparr> = w" by simp
  with False show ?thesis
    by (simp add: mapWatchdogSystem_Check_def Lock_def Unlock_def Check_range_foldl)
qed

lemma Watch_loop_append:
  "Watch_loop w period (rs @ rs') log =
     (case Watch_loop w period rs log of
        Running wk lg \<Rightarrow> Watch_loop wk period rs' lg
      | Returned err w' lg \<Rightarrow> Returned err w' lg
      | Blocked \<Rightarrow> Blocked)"
proof (induction rs arbitrary: w log)
  case Nil
  show ?case by (cases rs') simp_all
next
  case (Cons r rs)
  show ?case
  proof (cases "mapWatchdogSystem_Check w (visits r)")
    case None
    then show ?thesis by simp
  next
    case (Some p)
    obtain err w1 where p: "p = (err, w1)" by (cases p)
    with Some Cons show ?thesis by simp
  qed
qed

lemma Watch_loop_Running:
  "Watch_loop w period rs log = Running wk lg \<Longrightarrow>
     \<not> terminated wk \<and> lg = log @ replicate (length rs) None"
proof (induction rs arbitrary: w log)
  case Nil
  then show ?case by (simp split: if_splits)
next
  case (Cons r rs)
  from Cons.prems have nt: "\<not> terminated w" by (simp split: if_splits)
  from Cons.prems nt obtain w1 where
    chk: "mapWatchdogSystem_Check w (visits r) = Some (None, w1)" and
    rest: "Watch_loop (Sleep period r w1) period rs (log @ [None]) = Running wk lg"
    by (auto split: option.splits if_splits)
  from Cons.IH [OF rest] show ?case by (simp add: replicate_app_Cons_same)
qed

lemma Watch_loop_Returned:
  "Watch_loop w period rs log = Returned err w' lg \<Longrightarrow>
     length lg \<le> length log + length rs \<and>
     (\<exists>k. lg = log @ replicate k None @ (case err of None \<Rightarrow> [] | Some e \<Rightarrow> [Some e]))"
proof (induction rs arbitrary: w log)
  case Nil
  then show ?case by (simp split: if_splits)
next
  case (Cons r rs)
  show ?case
  proof (cases "terminated w")
    case True
    with Cons.prems have "err = None" "lg = log" by simp_all
    then show ?thesis by simp
  next
    case False
    with Cons.prems obtain e1 w1 where
      chk: "mapWatchdogSystem_Check w (visits r) = Some (e1, w1)"
      by (auto split: option.splits)
    show ?thesis
    proof (cases e1)
      case (Some e)
      with False chk Cons.prems have "err = Some e" "lg = log @ [Some e]" by auto
      then have "lg = log @ replicate 0 None @ (case err of None \<Rightarrow> [] | Some e \<Rightarrow> [Some e])"
        and "length lg \<le> length log + length (r # rs)" by simp_all
      then show ?thesis by blast
    next
      case None
      with False chk Cons.prems have
        "Watch_loop (Sleep period r w1) period rs (log @ [None]) = Returned err w' lg" by simp
      from Cons.IH [OF this] obtain k where len: "length lg \<le> length (log @ [None]) + length rs"
        and "lg = (log @ [None]) @ replicate k None @ (case err of None \<Rightarrow> [] | Some e \<Rightarrow> [Some e])"
        by blast
      then have "lg = log @ replicate (Suc k) None @ (case err of None \<Rightarrow> [] | Some e \<Rightarrow> [Some e])"
        by simp
      with len show ?thesis by (simp del: replicate_Suc)
    qed
  qed
qed

section \<open>Properties of timeWatchdogService\<close>

text \<open>
  C2. For a timed check, \<^verbatim>\<open>Check()\<close> returns true if and only if the clock reading
  is strictly after the deadline, the deadline is the reading of the last
  \<^verbatim>\<open>Whack()\<close> plus the duration, and the call leaves every field of the check
  as it was.
\<close>

theorem timeWatchdogService_Check_strictly_after_deadline:
  "timeWatchdogService_Check s now = (expireAt s < now, s) \<and>
   expireAt (timeWatchdogService_Whack s t) = t + sint (duration s) \<and>
   timeWatchdogService_Check (timeWatchdogService_Whack s t) now =
     (t + sint (duration s) < now, timeWatchdogService_Whack s t)"
  by (simp add: timeWatchdogService_Check_def timeWatchdogService_Whack_def
      Time_After_def Time_Add_def)

text \<open>
  C6, as the code has it. The constructor has no failing path: for every name,
  every duration (also a negative one) and every clock reading it returns a check
  with that name and duration whose deadline is the reading plus the duration. At the
  instant of its construction the check reads as expired exactly when the duration is
  negative.
\<close>

theorem TimeWatchdogService_always_constructs:
  "TimeWatchdogService n d now = \<lparr>name = n, duration = d, expireAt = now + sint d\<rparr> \<and>
   fst (timeWatchdogService_Check (TimeWatchdogService n d now) now) = (sint d < 0)"
  by (simp add: TimeWatchdogService_def timeWatchdogService_Whack_def
      timeWatchdogService_Check_def Time_Add_def Time_After_def)

text \<open>
  C6 as stated fails: with the negative duration \<open>-1\<close> the constructor returns a
  check.
\<close>

theorem TimeWatchdogService_negative_duration_constructs:
  "sint (- 1 :: Duration) < 0 \<and>
   TimeWatchdogService ''db'' (- 1) 0 = \<lparr>name = ''db'', duration = - 1, expireAt = - 1\<rparr>"
  by (simp add: TimeWatchdogService_def timeWatchdogService_Whack_def Time_Add_def)

text \<open>
  C7, as the code has it. For a check whose duration is not negative, \<^verbatim>\<open>Check()\<close>
  at the very clock reading of its construction, and at the very clock reading of any
  \<^verbatim>\<open>Whack()\<close>, returns false; the duration zero is included.
\<close>

theorem fresh_check_not_expired:
  "(0 \<le> sint d \<longrightarrow> \<not> fst (timeWatchdogService_Check (TimeWatchdogService n d now) now)) \<and>
   (0 \<le> sint (duration s) \<longrightarrow>
      \<not> fst (timeWatchdogService_Check (timeWatchdogService_Whack s now) now))"
  by (simp add: TimeWatchdogService_def timeWatchdogService_Whack_def
      timeWatchdogService_Check_def Time_Add_def Time_After_def)

theorem fresh_check_not_expired_witness:
  "0 \<le> sint (0 :: Duration) \<and>
   \<not> fst (timeWatchdogService_Check (TimeWatchdogService ''db'' 0 7) 7) \<and>
   0 \<le> sint (duration \<lparr>name = ''db'', duration = 0, expireAt = 3\<rparr>) \<and>
   \<not> fst (timeWatchdogService_Check
           (timeWatchdogService_Whack \<lparr>name = ''db'', duration = 0, expireAt = 3\<rparr> 7) 7)"
  using fresh_check_not_expired [of 0 "''db''" 7 "\<lparr>name = ''db'', duration = 0, expireAt = 3\<rparr>"]
  by simp

text \<open>
  C7 as stated fails: a check with the duration \<open>-1\<close> reads as expired at the clock
  reading of its construction and at the clock reading of a \<^verbatim>\<open>Whack()\<close>.
\<close>

theorem fresh_check_expired_negative_duration:
  "fst (timeWatchdogService_Check (TimeWatchdogService ''db'' (- 1) 0) 0) \<and>
   fst (timeWatchdogService_Check
         (timeWatchdogService_Whack (TimeWatchdogService ''db'' (- 1) 0) 7) 7)"
  by (simp add: TimeWatchdogService_def timeWatchdogService_Whack_def
      timeWatchdogService_Check_def Time_Add_def Time_After_def)

text \<open>
  C9, as the code has it. \<^verbatim>\<open>Name()\<close> returns the string the constructor was
  given, and it is the same string on every call: \<^verbatim>\<open>Name()\<close> and \<^verbatim>\<open>Check()\<close>
  leave the check as it was, and \<^verbatim>\<open>Whack()\<close> changes its deadline and nothing
  else. The constructor accepts every string, so the name is empty exactly when the
  constructor was given the empty string.
\<close>

theorem timeWatchdogService_Name_stable:
  "timeWatchdogService_Name (TimeWatchdogService n d now) = (n, TimeWatchdogService n d now) \<and>
   snd (timeWatchdogService_Name s) = s \<and>
   snd (timeWatchdogService_Check s t) = s \<and>
   timeWatchdogService_Whack s t = s\<lparr>expireAt := t + sint (duration s)\<rparr> \<and>
   name (timeWatchdogService_Whack s t) = name s \<and>
   duration (timeWatchdogService_Whack s t) = duration s \<and>
   fst (timeWatchdogService_Name (timeWatchdogService_Whack s t)) = fst (timeWatchdogService_Name s) \<and>
   fst (timeWatchdogService_Name (snd (timeWatchdogService_Check s t))) = fst (timeWatchdogService_Name s) \<and>
   fst (timeWatchdogService_Name (snd (timeWatchdogService_Name s))) = fst (timeWatchdogService_Name s) \<and>
   (fst (timeWatchdogService_Name (TimeWatchdogService n d now)) = [] \<longleftrightarrow> n = [])"
  by (simp add: timeWatchdogService_Name_def TimeWatchdogService_def
      timeWatchdogService_Whack_def timeWatchdogService_Check_def Time_Add_def)

text \<open>
  C9 as stated fails: the constructor, given the empty string, returns a check whose
  \<^verbatim>\<open>Name()\<close> is the empty string.
\<close>

theorem timeWatchdogService_Name_empty:
  "fst (timeWatchdogService_Name (TimeWatchdogService [] 50000000 0)) = []"
  by (simp add: timeWatchdogService_Name_def TimeWatchdogService_def timeWatchdogService_Whack_def)

section \<open>Properties of mapWatchdogSystem\<close>

text \<open>
  C1, at the spec's own scenario. The check \<open>db\<close> with a window of 50 ms is built
  at the instant 0 and is the one entry of \<^verbatim>\<open>services\<close>. At the instant 0 the check is not
  expired (\<^verbatim>\<open>service.Check()\<close> is false), and the aggregate \<^verbatim>\<open>Check()\<close> returns
  an error that names \<open>db\<close>; at 60 ms the check is expired, and the aggregate
  \<^verbatim>\<open>Check()\<close> returns \<^verbatim>\<open>nil\<close>. The claim says the opposite at both instants.
\<close>

theorem mapWatchdogSystem_Check_reports_unexpired_db:
  "fst (timeWatchdogService_Check db_service 0) = False \<and>
   mapWatchdogSystem_Check db_system [(''db'', 0)] =
     Some (Some ''Watchdog timed out on the following services: db'', db_system) \<and>
   fst (timeWatchdogService_Check db_service 60000000) = True \<and>
   mapWatchdogSystem_Check db_system [(''db'', 60000000)] = Some (None, db_system)"
proof -
  have "fst (timeWatchdogService_Check db_service 0) = False"
    "fst (timeWatchdogService_Check db_service 60000000) = True"
    by (simp_all add: timeWatchdogService_Check_def Time_After_def db_service_eq)
  moreover have "mapWatchdogSystem_Check db_system [(''db'', 0)] =
     Some (Some ''Watchdog timed out on the following services: db'', db_system)"
    by (simp add: Check_eq)
      (simp add: db_system_def db_service_eq timeWatchdogService_Check_def Time_After_def)
  moreover have "mapWatchdogSystem_Check db_system [(''db'', 60000000)] = Some (None, db_system)"
    by (simp add: Check_eq)
      (simp add: db_system_def db_service_eq timeWatchdogService_Check_def Time_After_def)
  ultimately show ?thesis by simp
qed

text \<open>
  C10. The aggregate \<^verbatim>\<open>Check()\<close> changes nothing: called with the mutex free it
  returns, and whenever it returns, with \<^verbatim>\<open>nil\<close> or with an error, the system
  after the call is the system before it: the same entries, each with the deadline
  it had, the same \<^verbatim>\<open>terminated\<close> flag and the mutex free again.
\<close>

theorem mapWatchdogSystem_Check_frame:
  "(\<not> mutex w \<longrightarrow> (\<exists>err. mapWatchdogSystem_Check w vs = Some (err, w))) \<and>
   (mapWatchdogSystem_Check w vs = Some (err, w') \<longrightarrow> w' = w)"
  by (simp add: Check_eq)

theorem mapWatchdogSystem_Check_frame_witness:
  "\<not> mutex db_system \<and>
   mapWatchdogSystem_Check db_system [(''db'', 0)] =
     Some (Some ''Watchdog timed out on the following services: db'', db_system) \<and>
   services db_system ''db'' = Some db_service"
proof -
  have free: "\<not> mutex db_system" by (simp add: db_system_def)
  have "fst (Check_range [(''db'', 0)] (services db_system) []) = ''db''"
    by (simp add: db_system_def db_service_eq timeWatchdogService_Check_def Time_After_def)
  then have ret: "mapWatchdogSystem_Check db_system [(''db'', 0)] =
      Some (Some ''Watchdog timed out on the following services: db'',
            snd (the (mapWatchdogSystem_Check db_system [(''db'', 0)])))"
    using free by (simp add: Check_eq)
  from mapWatchdogSystem_Check_frame
    [of db_system "[(''db'', 0)]" "Some ''Watchdog timed out on the following services: db''"
      "snd (the (mapWatchdogSystem_Check db_system [(''db'', 0)]))"] ret
  have "snd (the (mapWatchdogSystem_Check db_system [(''db'', 0)])) = db_system" by blast
  with ret free show ?thesis by (simp add: db_system_def)
qed

text \<open>
  C8, at a fresh system. Two checks named \<open>db\<close> are added one after the other.
  Each \<^verbatim>\<open>Add\<close> returns and writes the undeclared \<^verbatim>\<open>w.timeouts\<close>, where the
  second check replaces the first; \<^verbatim>\<open>services\<close>, the map that \<^verbatim>\<open>Check\<close>
  ranges over, still has no entry, and the aggregate \<^verbatim>\<open>Check()\<close> returns
  \<^verbatim>\<open>nil\<close> as it does on the fresh system. The claim says one entry exists and the
  aggregate check reflects the second check.
\<close>

theorem mapWatchdogSystem_Add_misses_services:
  "mapWatchdogSystem_Add MapWatchdogSystem Map.empty (TimeWatchdogService ''db'' 10 0) =
     Some (MapWatchdogSystem, [''db'' \<mapsto> TimeWatchdogService ''db'' 10 0]) \<and>
   mapWatchdogSystem_Add MapWatchdogSystem [''db'' \<mapsto> TimeWatchdogService ''db'' 10 0] db_service =
     Some (MapWatchdogSystem, [''db'' \<mapsto> db_service]) \<and>
   services MapWatchdogSystem ''db'' = None \<and>
   dom (services MapWatchdogSystem) = {} \<and>
   range_visits (services MapWatchdogSystem) [] \<and>
   mapWatchdogSystem_Check MapWatchdogSystem [] = Some (None, MapWatchdogSystem)"
proof -
  have free: "\<not> mutex MapWatchdogSystem"
    and same: "MapWatchdogSystem\<lparr>mutex := True, mutex := False\<rparr> = MapWatchdogSystem"
    by (simp_all add: MapWatchdogSystem_def)
  have nm: "name (TimeWatchdogService ''db'' 10 0) = ''db''" "name db_service = ''db''"
    by (simp_all add: db_service_eq TimeWatchdogService_def timeWatchdogService_Whack_def)
  have "mapWatchdogSystem_Add MapWatchdogSystem Map.empty (TimeWatchdogService ''db'' 10 0) =
     Some (MapWatchdogSystem, [''db'' \<mapsto> TimeWatchdogService ''db'' 10 0])"
    using free same
    by (simp add: mapWatchdogSystem_Add_def Lock_def Unlock_def timeWatchdogService_Name_def nm)
  moreover have "mapWatchdogSystem_Add MapWatchdogSystem
      [''db'' \<mapsto> TimeWatchdogService ''db'' 10 0] db_service =
     Some (MapWatchdogSystem, [''db'' \<mapsto> db_service])"
    using free same
    by (simp add: mapWatchdogSystem_Add_def Lock_def Unlock_def timeWatchdogService_Name_def nm)
  moreover have "services MapWatchdogSystem ''db'' = None" "dom (services MapWatchdogSystem) = {}"
    "range_visits (services MapWatchdogSystem) []"
    by (simp_all add: MapWatchdogSystem_def range_visits_def)
  moreover have "mapWatchdogSystem_Check MapWatchdogSystem [] = Some (None, MapWatchdogSystem)"
    using free by (simp add: Check_eq)
  ultimately show ?thesis by (intro conjI)
qed

text \<open>
  C4. \<^verbatim>\<open>Terminate()\<close> called once or more leaves the system that one call leaves,
  and \<^verbatim>\<open>Watch\<close> started on a system on which \<^verbatim>\<open>Terminate()\<close> was called
  returns \<^verbatim>\<open>nil\<close> at once, whatever rounds stand ready: the system is unchanged
  and the log of aggregate checks is empty.
\<close>

theorem mapWatchdogSystem_Terminate_idempotent_stops_Watch:
  "(mapWatchdogSystem_Terminate ^^ Suc n) w = mapWatchdogSystem_Terminate w \<and>
   mapWatchdogSystem_Watch ((mapWatchdogSystem_Terminate ^^ Suc n) w) period rs =
     Returned None (mapWatchdogSystem_Terminate w) []"
proof -
  have idem: "(mapWatchdogSystem_Terminate ^^ Suc n) w = mapWatchdogSystem_Terminate w"
    by (induction n) (simp_all add: mapWatchdogSystem_Terminate_def)
  have "Watch_loop (mapWatchdogSystem_Terminate w) period rs [] =
      Returned None (mapWatchdogSystem_Terminate w) []"
    by (cases rs) (simp_all add: mapWatchdogSystem_Terminate_def)
  with idem show ?thesis by (simp only: mapWatchdogSystem_Watch_def)
qed

lemma Watch_loop_Returned_append:
  "Watch_loop w period rs log = Returned err w' lg \<Longrightarrow>
     Watch_loop w period (rs @ rest) log = Returned err w' lg"
  by (simp add: Watch_loop_append)

lemma Watch_loop_Returned_nil:
  "Watch_loop w period rs log = Returned None w' lg \<Longrightarrow> terminated w'"
proof (induction rs arbitrary: w log)
  case Nil
  then show ?case by (simp split: if_splits)
next
  case (Cons r rs)
  show ?case
  proof (cases "terminated w")
    case True
    with Cons.prems show ?thesis by simp
  next
    case False
    with Cons.prems obtain e1 w1 where
      chk: "mapWatchdogSystem_Check w (visits r) = Some (e1, w1)"
      by (auto split: option.splits)
    show ?thesis
    proof (cases e1)
      case (Some e)
      with False chk Cons.prems show ?thesis by simp
    next
      case None
      with False chk Cons.prems have
        "Watch_loop (Sleep period r w1) period rs (log @ [None]) = Returned None w' lg" by simp
      then show ?thesis by (rule Cons.IH)
    qed
  qed
qed

text \<open>
  C3. \<^verbatim>\<open>Watch\<close> over a list of rounds, by what it finds at the head of its loop:
  \<^item> started on a system whose \<^verbatim>\<open>terminated\<close> is set, it returns \<^verbatim>\<open>nil\<close>
    without a check; started on one whose flag is clear, it is running;
  \<^item> while it is running, an aggregate check that returns \<^verbatim>\<open>nil\<close> is followed
    by the sleep and, unless \<^verbatim>\<open>terminated\<close> was set meanwhile, by the next turn
    of the loop: it invokes the aggregate check once in every round;
  \<^item> while it is running, the first aggregate check that returns an error makes
    \<^verbatim>\<open>Watch\<close> return exactly that error, leaving the system as that check left
    it; every check before it returned \<^verbatim>\<open>nil\<close>, and the log ends with the failure
    whatever rounds stand ready (\<open>rest\<close>): no further check is made;
  \<^item> an aggregate check that does not return blocks \<^verbatim>\<open>Watch\<close>;
  \<^item> once \<^verbatim>\<open>Watch\<close> has returned or is blocked, further rounds change nothing;
  \<^item> it returns \<^verbatim>\<open>nil\<close> only with \<^verbatim>\<open>terminated\<close> set, after checks that all
    returned \<^verbatim>\<open>nil\<close>; it returns an error only as the result of the last check
    it made, every check before that one having returned \<^verbatim>\<open>nil\<close>.
\<close>

theorem mapWatchdogSystem_Watch_returns_first_failure:
  "(terminated w \<longrightarrow> mapWatchdogSystem_Watch w period rs = Returned None w []) \<and>
   (\<not> terminated w \<longrightarrow> mapWatchdogSystem_Watch w period [] = Running w []) \<and>
   (mapWatchdogSystem_Watch w period rs = Running wk lg \<and>
    mapWatchdogSystem_Check wk (visits r) = Some (None, w1) \<longrightarrow>
      mapWatchdogSystem_Watch w period (rs @ [r]) =
        (if terminated (Sleep period r w1)
         then Returned None (Sleep period r w1) (lg @ [None])
         else Running (Sleep period r w1) (lg @ [None]))) \<and>
   (mapWatchdogSystem_Watch w period rs = Running wk lg \<and>
    mapWatchdogSystem_Check wk (visits r) = Some (Some e, w1) \<longrightarrow>
      lg = replicate (length rs) None \<and>
      mapWatchdogSystem_Watch w period (rs @ r # rest) =
        Returned (Some e) w1 (replicate (length rs) None @ [Some e])) \<and>
   (mapWatchdogSystem_Watch w period rs = Running wk lg \<and>
    mapWatchdogSystem_Check wk (visits r) = None \<longrightarrow>
      mapWatchdogSystem_Watch w period (rs @ r # rest) = Blocked) \<and>
   (mapWatchdogSystem_Watch w period rs = Returned err w' lg' \<longrightarrow>
      mapWatchdogSystem_Watch w period (rs @ rest) = Returned err w' lg') \<and>
   (mapWatchdogSystem_Watch w period rs = Blocked \<longrightarrow>
      mapWatchdogSystem_Watch w period (rs @ rest) = Blocked) \<and>
   (mapWatchdogSystem_Watch w period rs = Returned None w' lg' \<longrightarrow>
      terminated w' \<and> (\<exists>k \<le> length rs. lg' = replicate k None)) \<and>
   (mapWatchdogSystem_Watch w period rs = Returned (Some e') w' lg' \<longrightarrow>
      (\<exists>k < length rs. lg' = replicate k None @ [Some e']))"
proof (intro conjI impI)
  assume "terminated w"
  then show "mapWatchdogSystem_Watch w period rs = Returned None w []"
    by (cases rs) (simp_all add: mapWatchdogSystem_Watch_def)
next
  assume "\<not> terminated w"
  then show "mapWatchdogSystem_Watch w period [] = Running w []"
    by (simp add: mapWatchdogSystem_Watch_def)
next
  assume a: "mapWatchdogSystem_Watch w period rs = Running wk lg \<and>
    mapWatchdogSystem_Check wk (visits r) = Some (None, w1)"
  then have run: "Watch_loop w period rs [] = Running wk lg"
    and chk: "mapWatchdogSystem_Check wk (visits r) = Some (None, w1)"
    by (simp_all add: mapWatchdogSystem_Watch_def)
  from Watch_loop_Running [OF run] have nt: "\<not> terminated wk" by simp
  have "Watch_loop w period (rs @ [r]) [] = Watch_loop wk period [r] lg"
    by (simp add: Watch_loop_append run)
  also have "\<dots> = Watch_loop (Sleep period r w1) period [] (lg @ [None])"
    using nt chk by simp
  finally show "mapWatchdogSystem_Watch w period (rs @ [r]) =
        (if terminated (Sleep period r w1)
         then Returned None (Sleep period r w1) (lg @ [None])
         else Running (Sleep period r w1) (lg @ [None]))"
    by (simp add: mapWatchdogSystem_Watch_def)
next
  assume a: "mapWatchdogSystem_Watch w period rs = Running wk lg \<and>
    mapWatchdogSystem_Check wk (visits r) = Some (Some e, w1)"
  then have run: "Watch_loop w period rs [] = Running wk lg"
    and chk: "mapWatchdogSystem_Check wk (visits r) = Some (Some e, w1)"
    by (simp_all add: mapWatchdogSystem_Watch_def)
  from Watch_loop_Running [OF run] have nt: "\<not> terminated wk"
    and lg: "lg = replicate (length rs) None" by simp_all
  show "lg = replicate (length rs) None" by (rule lg)
  have "Watch_loop w period (rs @ r # rest) [] = Watch_loop wk period (r # rest) lg"
    by (simp add: Watch_loop_append run)
  also have "\<dots> = Returned (Some e) w1 (lg @ [Some e])" using nt chk by simp
  finally show "mapWatchdogSystem_Watch w period (rs @ r # rest) =
      Returned (Some e) w1 (replicate (length rs) None @ [Some e])"
    by (simp add: mapWatchdogSystem_Watch_def lg)
next
  assume a: "mapWatchdogSystem_Watch w period rs = Running wk lg \<and>
    mapWatchdogSystem_Check wk (visits r) = None"
  then have run: "Watch_loop w period rs [] = Running wk lg"
    and chk: "mapWatchdogSystem_Check wk (visits r) = None"
    by (simp_all add: mapWatchdogSystem_Watch_def)
  from Watch_loop_Running [OF run] have nt: "\<not> terminated wk" by simp
  have "Watch_loop w period (rs @ r # rest) [] = Watch_loop wk period (r # rest) lg"
    by (simp add: Watch_loop_append run)
  also have "\<dots> = Blocked" using nt chk by simp
  finally show "mapWatchdogSystem_Watch w period (rs @ r # rest) = Blocked"
    by (simp add: mapWatchdogSystem_Watch_def)
next
  assume "mapWatchdogSystem_Watch w period rs = Returned err w' lg'"
  then show "mapWatchdogSystem_Watch w period (rs @ rest) = Returned err w' lg'"
    by (simp add: mapWatchdogSystem_Watch_def Watch_loop_Returned_append)
next
  assume "mapWatchdogSystem_Watch w period rs = Blocked"
  then show "mapWatchdogSystem_Watch w period (rs @ rest) = Blocked"
    by (simp add: mapWatchdogSystem_Watch_def Watch_loop_append)
next
  assume "mapWatchdogSystem_Watch w period rs = Returned None w' lg'"
  then have ret: "Watch_loop w period rs [] = Returned None w' lg'"
    by (simp add: mapWatchdogSystem_Watch_def)
  from Watch_loop_Returned_nil [OF ret] show "terminated w'" .
  from Watch_loop_Returned [OF ret] obtain k where
    k: "length lg' \<le> length rs" "lg' = replicate k None"
    by auto
  then have "k \<le> length rs" by simp
  with k(2) show "\<exists>k \<le> length rs. lg' = replicate k None" by blast
next
  assume "mapWatchdogSystem_Watch w period rs = Returned (Some e') w' lg'"
  then have "Watch_loop w period rs [] = Returned (Some e') w' lg'"
    by (simp add: mapWatchdogSystem_Watch_def)
  from Watch_loop_Returned [OF this] obtain k where
    k: "length lg' \<le> length rs" "lg' = replicate k None @ [Some e']"
    by auto
  then have "k < length rs" by simp
  with k(2) show "\<exists>k < length rs. lg' = replicate k None @ [Some e']" by blast
qed

lemma whack_round_check:
  "mapWatchdogSystem_Check db_system (visits whack_round) = Some (None, db_system)"
  by (simp add: Check_eq)
    (simp add: whack_round_def db_system_def db_service_eq timeWatchdogService_Check_def
      Time_After_def)

lemma stop_round_check:
  "mapWatchdogSystem_Check db_system (visits stop_round) = Some (None, db_system)"
  by (simp add: Check_eq)
    (simp add: stop_round_def db_system_def db_service_eq timeWatchdogService_Check_def
      Time_After_def)

lemma late_round_check:
  "mapWatchdogSystem_Check db_whacked (visits late_round) =
     Some (Some ''Watchdog timed out on the following services: db'', db_whacked)"
  by (simp add: Check_eq)
    (simp add: late_round_def db_whacked_def db_service_eq timeWatchdogService_Check_def
      timeWatchdogService_Whack_def Time_Add_def Time_After_def)

lemma whack_round_sleep:
  "Sleep 5000000 whack_round db_system = db_whacked \<and> \<not> terminated db_whacked"
  by (simp add: Sleep_def whack_round_def db_system_def db_whacked_def)

lemma stop_round_sleep:
  "Sleep 5000000 stop_round db_system = mapWatchdogSystem_Terminate db_system \<and>
   terminated (mapWatchdogSystem_Terminate db_system)"
  by (simp add: Sleep_def stop_round_def mapWatchdogSystem_Terminate_def)

theorem mapWatchdogSystem_Watch_returns_first_failure_witness:
  "\<not> terminated db_system \<and>
   mapWatchdogSystem_Watch db_system 5000000 [] = Running db_system [] \<and>
   mapWatchdogSystem_Check db_system (visits whack_round) = Some (None, db_system) \<and>
   mapWatchdogSystem_Watch db_system 5000000 [whack_round] = Running db_whacked [None] \<and>
   mapWatchdogSystem_Check db_whacked (visits late_round) =
     Some (Some ''Watchdog timed out on the following services: db'', db_whacked) \<and>
   mapWatchdogSystem_Watch db_system 5000000 [whack_round, late_round] =
     Returned (Some ''Watchdog timed out on the following services: db'') db_whacked
       [None, Some ''Watchdog timed out on the following services: db''] \<and>
   mapWatchdogSystem_Watch db_system 5000000 [whack_round, late_round, late_round] =
     Returned (Some ''Watchdog timed out on the following services: db'') db_whacked
       [None, Some ''Watchdog timed out on the following services: db''] \<and>
   (\<exists>k < length [whack_round, late_round].
      [None, Some ''Watchdog timed out on the following services: db''] =
        replicate k None @ [Some ''Watchdog timed out on the following services: db'']) \<and>
   mapWatchdogSystem_Check db_system (visits stop_round) = Some (None, db_system) \<and>
   mapWatchdogSystem_Watch db_system 5000000 [stop_round] =
     Returned None (mapWatchdogSystem_Terminate db_system) [None] \<and>
   terminated (mapWatchdogSystem_Terminate db_system) \<and>
   (\<exists>k \<le> length [stop_round]. [None] = replicate k (None :: string option)) \<and>
   mapWatchdogSystem_Watch (mapWatchdogSystem_Terminate db_system) 5000000 [late_round] =
     Returned None (mapWatchdogSystem_Terminate db_system) [] \<and>
   \<not> terminated (db_system\<lparr>mutex := True\<rparr>) \<and>
   mapWatchdogSystem_Check (db_system\<lparr>mutex := True\<rparr>) (visits late_round) = None \<and>
   mapWatchdogSystem_Watch (db_system\<lparr>mutex := True\<rparr>) 5000000 [late_round] = Blocked \<and>
   mapWatchdogSystem_Watch (db_system\<lparr>mutex := True\<rparr>) 5000000 [late_round, late_round] = Blocked"
proof -
  let ?e = "''Watchdog timed out on the following services: db''"
  let ?t = "mapWatchdogSystem_Terminate db_system"
  have nt: "\<not> terminated db_system" by (simp add: db_system_def)
  from mapWatchdogSystem_Watch_returns_first_failure
    [where w = db_system and period = 5000000] nt
  have run0: "mapWatchdogSystem_Watch db_system 5000000 [] = Running db_system []"
    by blast
  from mapWatchdogSystem_Watch_returns_first_failure
    [where w = db_system and period = 5000000 and rs = "[]" and wk = db_system
      and lg = "[]" and r = whack_round and ?w1.0 = db_system] run0 whack_round_check
  have "mapWatchdogSystem_Watch db_system 5000000 ([] @ [whack_round]) =
      (if terminated (Sleep 5000000 whack_round db_system)
       then Returned None (Sleep 5000000 whack_round db_system) ([] @ [None])
       else Running (Sleep 5000000 whack_round db_system) ([] @ [None]))"
    by blast
  then have run1: "mapWatchdogSystem_Watch db_system 5000000 [whack_round] =
      Running db_whacked [None]"
    by (simp add: whack_round_sleep)
  from mapWatchdogSystem_Watch_returns_first_failure
    [where w = db_system and period = 5000000 and rs = "[whack_round]" and wk = db_whacked
      and lg = "[None]" and r = late_round and e = ?e and ?w1.0 = db_whacked
      and rest = "[]"] run1 late_round_check
  have "mapWatchdogSystem_Watch db_system 5000000 ([whack_round] @ late_round # []) =
      Returned (Some ?e) db_whacked (replicate (length [whack_round]) None @ [Some ?e])"
    by blast
  then have ret2: "mapWatchdogSystem_Watch db_system 5000000 [whack_round, late_round] =
      Returned (Some ?e) db_whacked [None, Some ?e]"
    by simp
  from mapWatchdogSystem_Watch_returns_first_failure
    [where w = db_system and period = 5000000 and rs = "[whack_round, late_round]"
      and err = "Some ?e" and w' = db_whacked and lg' = "[None, Some ?e]"
      and rest = "[late_round]"] ret2
  have "mapWatchdogSystem_Watch db_system 5000000 ([whack_round, late_round] @ [late_round]) =
      Returned (Some ?e) db_whacked [None, Some ?e]"
    by blast
  then have ret3: "mapWatchdogSystem_Watch db_system 5000000 [whack_round, late_round, late_round] =
      Returned (Some ?e) db_whacked [None, Some ?e]"
    by simp
  from mapWatchdogSystem_Watch_returns_first_failure
    [where w = db_system and period = 5000000 and rs = "[whack_round, late_round]"
      and e' = ?e and w' = db_whacked and lg' = "[None, Some ?e]"] ret2
  have first: "\<exists>k < length [whack_round, late_round].
      [None, Some ?e] = replicate k None @ [Some ?e]"
    by blast
  from mapWatchdogSystem_Watch_returns_first_failure
    [where w = db_system and period = 5000000 and rs = "[]" and wk = db_system
      and lg = "[]" and r = stop_round and ?w1.0 = db_system] run0 stop_round_check
  have "mapWatchdogSystem_Watch db_system 5000000 ([] @ [stop_round]) =
      (if terminated (Sleep 5000000 stop_round db_system)
       then Returned None (Sleep 5000000 stop_round db_system) ([] @ [None])
       else Running (Sleep 5000000 stop_round db_system) ([] @ [None]))"
    by blast
  then have stop: "mapWatchdogSystem_Watch db_system 5000000 [stop_round] =
      Returned None ?t [None]"
    by (simp add: stop_round_sleep)
  from mapWatchdogSystem_Watch_returns_first_failure
    [where w = db_system and period = 5000000 and rs = "[stop_round]"
      and w' = ?t and lg' = "[None]"] stop
  have nil: "terminated ?t \<and> (\<exists>k \<le> length [stop_round]. [None] = replicate k (None :: string option))"
    by blast
  then have stopped_flag: "terminated ?t" by blast
  from mapWatchdogSystem_Watch_returns_first_failure
    [where w = ?t and period = 5000000 and rs = "[late_round]"] stopped_flag
  have stopped: "mapWatchdogSystem_Watch ?t 5000000 [late_round] = Returned None ?t []"
    by blast
  let ?h = "db_system\<lparr>mutex := True\<rparr>"
  have nth: "\<not> terminated ?h" by (simp add: db_system_def)
  have held: "mapWatchdogSystem_Check ?h (visits late_round) = None"
    by (simp add: Check_eq)
  from mapWatchdogSystem_Watch_returns_first_failure
    [where w = ?h and period = 5000000] nth
  have runh: "mapWatchdogSystem_Watch ?h 5000000 [] = Running ?h []"
    by blast
  from mapWatchdogSystem_Watch_returns_first_failure
    [where w = ?h and period = 5000000 and rs = "[]" and wk = ?h and lg = "[]"
      and r = late_round and rest = "[]"] runh held
  have "mapWatchdogSystem_Watch ?h 5000000 ([] @ late_round # []) = Blocked"
    by blast
  then have blocked: "mapWatchdogSystem_Watch ?h 5000000 [late_round] = Blocked"
    by simp
  from mapWatchdogSystem_Watch_returns_first_failure
    [where w = ?h and period = 5000000 and rs = "[late_round]" and rest = "[late_round]"]
    blocked
  have "mapWatchdogSystem_Watch ?h 5000000 ([late_round] @ [late_round]) = Blocked"
    by blast
  then have blocked2: "mapWatchdogSystem_Watch ?h 5000000 [late_round, late_round] = Blocked"
    by simp
  from nt run0 whack_round_check run1 late_round_check ret2 ret3 first stop_round_check stop nil
    stopped nth held blocked blocked2
  show ?thesis by (intro conjI) simp_all
qed


text \<open>
  C5, as the code has it. The error of a failing aggregate \<^verbatim>\<open>Check()\<close> is the text
  \<open>Watchdog timed out on the following services: \<close>, with a capital W, followed by
  the names the range loop reported, in the order in which it visited them, with a
  comma and a space between neighbours. A reported empty name adds nothing to the
  text while the text of names is still empty. The order of the visits is the
  runtime's order of map iteration; nothing sorts the names.
\<close>

theorem mapWatchdogSystem_Check_message:
  "mapWatchdogSystem_Check w vs = Some (Some msg, w') \<Longrightarrow>
     msg = ''Watchdog timed out on the following services: '' @
           comma_separated (dropWhile (\<lambda>n. n = []) (reported vs (services w)))"
  by (auto simp add: Check_eq Check_range_foldl foldl_append_name_empty split: if_splits)

lemma ab_services:
  "services ab_system = [''a'' \<mapsto> \<lparr>name = ''a'', duration = 50000000, expireAt = 50000000\<rparr>,
      ''b'' \<mapsto> \<lparr>name = ''b'', duration = 50000000, expireAt = 50000000\<rparr>]"
  by (simp add: ab_system_def TimeWatchdogService_def timeWatchdogService_Whack_def Time_Add_def)

lemma ab_free: "\<not> mutex ab_system"
  by (simp add: ab_system_def)

theorem mapWatchdogSystem_Check_message_witness:
  "mapWatchdogSystem_Check ab_system [(''b'', 0), (''a'', 0)] =
     Some (Some ''Watchdog timed out on the following services: b, a'', ab_system) \<and>
   reported [(''b'', 0), (''a'', 0)] (services ab_system) = [''b'', ''a''] \<and>
   ''Watchdog timed out on the following services: b, a'' =
     ''Watchdog timed out on the following services: '' @
       comma_separated (dropWhile (\<lambda>n. n = []) (reported [(''b'', 0), (''a'', 0)] (services ab_system)))"
proof -
  have "fst (Check_range [(''b'', 0), (''a'', 0)] (services ab_system) []) = ''b, a''"
    by (simp add: ab_services timeWatchdogService_Check_def Time_After_def)
  then have chk: "mapWatchdogSystem_Check ab_system [(''b'', 0), (''a'', 0)] =
     Some (Some ''Watchdog timed out on the following services: b, a'', ab_system)"
    by (simp add: Check_eq ab_free)
  have rep: "reported [(''b'', 0), (''a'', 0)] (services ab_system) = [''b'', ''a'']"
    by (simp add: reported_def ab_services timeWatchdogService_Check_def Time_After_def)
  from mapWatchdogSystem_Check_message [OF chk] chk rep show ?thesis by (intro conjI)
qed

text \<open>
  C5 as stated fails: on the system holding the unexpired checks \<open>a\<close> and \<open>b\<close>,
  a range loop that visits \<open>b\<close> first gives the message
  \<open>Watchdog timed out on the following services: b, a\<close>, whose first letter is a
  capital and whose names are not sorted; a range loop over the same map that visits
  \<open>a\<close> first gives another message.
\<close>

theorem mapWatchdogSystem_Check_message_unsorted:
  "range_visits (services ab_system) [(''b'', 0), (''a'', 0)] \<and>
   mapWatchdogSystem_Check ab_system [(''b'', 0), (''a'', 0)] =
     Some (Some ''Watchdog timed out on the following services: b, a'', ab_system) \<and>
   range_visits (services ab_system) [(''a'', 0), (''b'', 0)] \<and>
   mapWatchdogSystem_Check ab_system [(''a'', 0), (''b'', 0)] =
     Some (Some ''Watchdog timed out on the following services: a, b'', ab_system)"
proof -
  have "range_visits (services ab_system) [(''b'', 0), (''a'', 0)]"
    "range_visits (services ab_system) [(''a'', 0), (''b'', 0)]"
    by (auto simp add: range_visits_def ab_services)
  moreover have "fst (Check_range [(''b'', 0), (''a'', 0)] (services ab_system) []) = ''b, a''"
    by (simp add: ab_services timeWatchdogService_Check_def Time_After_def)
  then have "mapWatchdogSystem_Check ab_system [(''b'', 0), (''a'', 0)] =
     Some (Some ''Watchdog timed out on the following services: b, a'', ab_system)"
    by (simp add: Check_eq ab_free)
  moreover have "fst (Check_range [(''a'', 0), (''b'', 0)] (services ab_system) []) = ''a, b''"
    by (simp add: ab_services timeWatchdogService_Check_def Time_After_def)
  then have "mapWatchdogSystem_Check ab_system [(''a'', 0), (''b'', 0)] =
     Some (Some ''Watchdog timed out on the following services: a, b'', ab_system)"
    by (simp add: Check_eq ab_free)
  ultimately show ?thesis by (intro conjI)
qed

end
